theory Spec2Isabelle
  imports Main
begin

section \<open>InvestLink front end: swipe session, interaction history, search bar\<close>

text \<open>
  The three React components are modelled by explicit state passing. The values held by
  \<^verbatim>\<open>useState\<close> form a record; every handler is a function from the record to the
  updated record. An \<^verbatim>\<open>await\<close> cuts a handler in two: the part that runs up to
  the network call (it returns the request it issues) and the part that runs once the
  promise has settled (it takes the outcome of the call as an argument). Each part reads
  the state of the latest render: React renders again after every event before the next
  one is handled. Where a later part of a handler reads a value its closure captured
  before the \<^verbatim>\<open>await\<close>, the captured value is passed along explicitly.
\<close>

subsection \<open>Network calls\<close>

text \<open>
  \<^verbatim>\<open>fetch\<close> rejects on a transport failure and resolves on every HTTP response,
  whatever its status code. \<^verbatim>\<open>response.json()\<close> throws on a body that is not JSON.
  \<open>JsonThrows\<close> also stands for a body such as \<^verbatim>\<open>null\<close>, where reading a property
  of the parsed value throws.
\<close>

datatype 'a json = JsonThrows | JsonValue 'a

datatype 'a fetched = FetchRejected | FetchResolved nat "'a json"

text \<open>The outcome of a POST or PUT whose response is never read: only the status is kept.\<close>

datatype written = WriteRejected | WriteResolved nat

text \<open>
  \<^verbatim>\<open>response.ok\<close> of the Fetch API: the status is in the range 200 to 299.
  \<^verbatim>\<open>SwipeRecommendations\<close>, \<^verbatim>\<open>InteractionHistory\<close> and \<^verbatim>\<open>SearchBar\<close> never read it;
  the profile pages and the sign-in and sign-up forms do.
\<close>

definition responseOk :: "nat \<Rightarrow> bool" where
  "responseOk st = (200 \<le> st \<and> st \<le> 299)"

datatype role = Investor | Company

text \<open>
  The requests of the three components, by endpoint. The arguments are the values the
  template strings and JSON bodies are built from, in URL order:
  \<^verbatim>\<open>/api/recommendations/{role}/{userId}?num=5\<close>,
  \<^verbatim>\<open>/api/swipe/{role}/{userId}/{role}/{targetId}\<close> with body \<^verbatim>\<open>{like}\<close>,
  \<^verbatim>\<open>/api/interactions/{role}/{userId}\<close>,
  \<^verbatim>\<open>/api/interactions/{role}/{userId}/{role}/{targetId}\<close> with body \<^verbatim>\<open>{new_status}\<close>,
  \<^verbatim>\<open>/api/search/{companies|investors}?q=...&limit=10\<close>.
  A target id is optional: the field read from the candidate may be undefined.
\<close>

datatype request =
    GetRecommendations role nat nat
  | PostSwipe role nat role "nat option" bool
  | GetInteractions role nat
  | PutInteraction role nat role "nat option" int
  | GetSearch bool "nat list" nat

text \<open>A candidate as the server sends it; only the fields the handlers read are kept.\<close>

record candidate =
  company_id :: "nat option"
  user_id :: "nat option"
  name :: string

text \<open>The props of a component: \<^verbatim>\<open>isInvestor = (type === "investor")\<close>.\<close>

record props =
  isInvestor :: bool
  userId :: nat

definition viewerRole :: "props \<Rightarrow> role" where
  "viewerRole p = (if isInvestor p then Investor else Company)"

definition targetRole :: "props \<Rightarrow> role" where
  "targetRole p = (if isInvestor p then Company else Investor)"

subsection \<open>SwipeRecommendations\<close>

datatype direction = SwipeLeft | SwipeRight

record swipe_state =
  recommendations :: "candidate list"
  currentIndex :: nat
  loading :: bool
  swiping :: "direction option"
  noMore :: bool
  error :: "string option"

definition initialSwipe :: swipe_state where
  "initialSwipe = \<lparr>recommendations = [], currentIndex = 0, loading = False,
     swiping = None, noMore = False, error = None\<rparr>"

text \<open>\<^verbatim>\<open>fetchRecommendations\<close> up to \<^verbatim>\<open>await fetch(endpoint)\<close>.\<close>

definition fetchRecommendations_begin :: "props \<Rightarrow> swipe_state \<Rightarrow> swipe_state \<times> request" where
  "fetchRecommendations_begin p s =
     (s\<lparr>loading := True, error := None\<rparr>, GetRecommendations (viewerRole p) (userId p) 5)"

text \<open>
  \<^verbatim>\<open>fetchRecommendations\<close> after the call has settled. The payload is the value of
  \<^verbatim>\<open>data.recommendations\<close>: \<open>None\<close> when the field is absent (or falsy). The status
  code is not looked at; the \<^verbatim>\<open>catch\<close> branch is taken on a rejected fetch and on a
  body that does not parse.
\<close>

definition fetchRecommendations_settle ::
    "swipe_state \<Rightarrow> candidate list option fetched \<Rightarrow> swipe_state" where
  "fetchRecommendations_settle s r =
     (case r of
        FetchRejected \<Rightarrow> s\<lparr>error := Some ''Failed to load recommendations'', loading := False\<rparr>
      | FetchResolved st JsonThrows \<Rightarrow>
          s\<lparr>error := Some ''Failed to load recommendations'', loading := False\<rparr>
      | FetchResolved st (JsonValue recs) \<Rightarrow>
          (case recs of
             None \<Rightarrow> s\<lparr>noMore := True, loading := False\<rparr>
           | Some xs \<Rightarrow>
               if 0 < length xs
               then s\<lparr>recommendations := xs, currentIndex := 0, noMore := False, loading := False\<rparr>
               else s\<lparr>noMore := True, loading := False\<rparr>))"

definition fetchRecommendations ::
    "props \<Rightarrow> swipe_state \<Rightarrow> candidate list option fetched \<Rightarrow> swipe_state" where
  "fetchRecommendations p s r = fetchRecommendations_settle (fst (fetchRecommendations_begin p s)) r"

text \<open>
  What the component renders, in the order of its early returns: the spinner, the
  "All caught up!" panel with its Load More button, the error panel with its Try Again
  button, and the card with the Like and Pass buttons.
\<close>

datatype swipe_view = FindingMatches | AllCaughtUp | ErrorTryAgain | Card

definition swipeView :: "swipe_state \<Rightarrow> swipe_view" where
  "swipeView s =
     (if loading s \<and> recommendations s = [] then FindingMatches
      else if noMore s \<or> length (recommendations s) \<le> currentIndex s then AllCaughtUp
      else if error s \<noteq> None then ErrorTryAgain
      else Card)"

text \<open>
  A swipe write in flight: the request, and the values of \<^verbatim>\<open>currentIndex\<close> and
  \<^verbatim>\<open>recommendations.length\<close> that the closure of this call of \<^verbatim>\<open>handleSwipe\<close>
  holds. The timer callback compares these captured values; only
  \<^verbatim>\<open>setCurrentIndex(prev => prev + 1)\<close> reads the state of the moment.
\<close>

record swipe_call =
  call_request :: request
  call_index :: nat
  call_length :: nat

text \<open>
  \<^verbatim>\<open>handleSwipe\<close> up to \<^verbatim>\<open>await fetch(endpoint, ...)\<close>. The guard returns at once,
  with the state untouched and nothing sent. Past the guard the index is in range, so
  \<open>current\<close> is an element of the batch.
\<close>

definition handleSwipe_begin :: "props \<Rightarrow> swipe_state \<Rightarrow> bool \<Rightarrow> swipe_state \<times> swipe_call option" where
  "handleSwipe_begin p s liked =
     (if swiping s \<noteq> None \<or> length (recommendations s) \<le> currentIndex s then (s, None)
      else
        let current = recommendations s ! currentIndex s;
            targetId = (if isInvestor p then company_id current else user_id current)
        in (s\<lparr>swiping := Some (if liked then SwipeRight else SwipeLeft)\<rparr>,
            Some \<lparr>call_request =
                    PostSwipe (viewerRole p) (userId p) (targetRole p) targetId liked,
                  call_index = currentIndex s,
                  call_length = length (recommendations s)\<rparr>))"

text \<open>
  \<^verbatim>\<open>handleSwipe\<close> after the write has settled. A rejected fetch goes to the
  \<^verbatim>\<open>catch\<close> branch. A resolved fetch, whatever the status of the response, starts the
  300 ms timer, whose callback clears \<open>swiping\<close> and either marks the batch as done or
  moves to the next card. The timer is never cancelled; its callback is applied here.
\<close>

definition handleSwipe_settle :: "swipe_state \<Rightarrow> swipe_call \<Rightarrow> written \<Rightarrow> swipe_state" where
  "handleSwipe_settle s c w =
     (case w of
        WriteRejected \<Rightarrow> s\<lparr>swiping := None\<rparr>
      | WriteResolved st \<Rightarrow>
          (if call_length c \<le> call_index c + 1 then s\<lparr>swiping := None, noMore := True\<rparr>
           else s\<lparr>swiping := None, currentIndex := currentIndex s + 1\<rparr>))"

text \<open>One whole call of \<^verbatim>\<open>handleSwipe\<close>: the new state and the requests it sent.\<close>

definition handleSwipe :: "props \<Rightarrow> swipe_state \<Rightarrow> bool \<Rightarrow> written \<Rightarrow> swipe_state \<times> request list" where
  "handleSwipe p s liked w =
     (case handleSwipe_begin p s liked of
        (s', None) \<Rightarrow> (s', [])
      | (s', Some c) \<Rightarrow> (handleSwipe_settle s' c w, [call_request c]))"

text \<open>A sequence of decisions, each one settled before the next is made.\<close>

fun decisions :: "props \<Rightarrow> swipe_state \<Rightarrow> (bool \<times> written) list \<Rightarrow> swipe_state" where
  "decisions p s [] = s"
| "decisions p s ((liked, w) # ds) = decisions p (fst (handleSwipe p s liked w)) ds"

text \<open>
  A burst of presses with no response in between: \<^verbatim>\<open>handleSwipe\<close> is entered once per
  press, each time with the state the press before left, and the writes that get past
  the guard are collected.
\<close>

fun burst :: "props \<Rightarrow> swipe_state \<Rightarrow> bool list \<Rightarrow> swipe_state \<times> swipe_call list" where
  "burst p s [] = (s, [])"
| "burst p s (liked # ls) =
     (case handleSwipe_begin p s liked of
        (s', None) \<Rightarrow> burst p s' ls
      | (s', Some c) \<Rightarrow> (case burst p s' ls of (s'', cs) \<Rightarrow> (s'', c # cs)))"

subsection \<open>Profile pages\<close>

text \<open>
  \<^verbatim>\<open>handleInteraction\<close> of the investor and company profile pages sends the same swipe
  write as \<^verbatim>\<open>handleSwipe\<close>. Unlike it, it reads the response and records the decision
  only \<^verbatim>\<open>if (response.ok)\<close>. The flag \<open>viewerAllowed\<close> is the first part of its
  guard: a viewer id is present and the viewer is of the opposite role.
\<close>

datatype interaction_done = DoneLiked | DoneDisliked

record profile_state =
  interacting :: bool
  interactionDone :: "interaction_done option"

definition handleInteraction :: "bool \<Rightarrow> profile_state \<Rightarrow> bool \<Rightarrow> written \<Rightarrow> profile_state" where
  "handleInteraction viewerAllowed s liked w =
     (if \<not> viewerAllowed \<or> interacting s then s
      else case w of
             WriteRejected \<Rightarrow> s\<lparr>interacting := False\<rparr>
           | WriteResolved st \<Rightarrow>
               if responseOk st
               then s\<lparr>interactionDone := Some (if liked then DoneLiked else DoneDisliked),
                      interacting := False\<rparr>
               else s\<lparr>interacting := False\<rparr>)"

subsection \<open>InteractionHistory\<close>

datatype tab = LikedTab | DislikedTab

text \<open>
  The id of a row is \<^verbatim>\<open>isInvestor ? item.company_id : item.user_id\<close>, which may be
  undefined; \<open>updating\<close> is that id or null.
\<close>

record history_state =
  liked :: "candidate list"
  disliked :: "candidate list"
  historyLoading :: bool
  activeList :: tab
  updating :: "nat option option"

definition itemId :: "props \<Rightarrow> candidate \<Rightarrow> nat option" where
  "itemId p item = (if isInvestor p then company_id item else user_id item)"

text \<open>\<^verbatim>\<open>x || []\<close> for a list that may be missing.\<close>

fun orEmpty :: "'a list option \<Rightarrow> 'a list" where
  "orEmpty None = []"
| "orEmpty (Some xs) = xs"

definition fetchHistory_begin :: "props \<Rightarrow> history_state \<Rightarrow> history_state \<times> request" where
  "fetchHistory_begin p s = (s\<lparr>historyLoading := True\<rparr>, GetInteractions (viewerRole p) (userId p))"

text \<open>The payload is the pair of \<^verbatim>\<open>data.liked\<close> and \<^verbatim>\<open>data.disliked\<close>.\<close>

definition fetchHistory_settle ::
    "history_state \<Rightarrow> (candidate list option \<times> candidate list option) fetched \<Rightarrow> history_state" where
  "fetchHistory_settle s r =
     (case r of
        FetchRejected \<Rightarrow> s\<lparr>historyLoading := False\<rparr>
      | FetchResolved st JsonThrows \<Rightarrow> s\<lparr>historyLoading := False\<rparr>
      | FetchResolved st (JsonValue (l, d)) \<Rightarrow>
          s\<lparr>liked := orEmpty l, disliked := orEmpty d, historyLoading := False\<rparr>)"

definition fetchHistory ::
    "props \<Rightarrow> history_state \<Rightarrow> (candidate list option \<times> candidate list option) fetched
      \<Rightarrow> history_state \<times> request list" where
  "fetchHistory p s r =
     (case fetchHistory_begin p s of (s', req) \<Rightarrow> (fetchHistory_settle s' r, [req]))"

text \<open>
  \<^verbatim>\<open>updateInteraction(targetId, newStatus)\<close>, given the outcome of the PUT and, for the
  refresh that follows a resolved PUT, the outcome of the GET. \<^verbatim>\<open>fetchHistory\<close> catches
  its own failures, so the \<^verbatim>\<open>catch\<close> branch here is the rejected PUT alone.
\<close>

definition updateInteraction ::
    "props \<Rightarrow> history_state \<Rightarrow> nat option \<Rightarrow> int \<Rightarrow> written
      \<Rightarrow> (candidate list option \<times> candidate list option) fetched
      \<Rightarrow> history_state \<times> request list" where
  "updateInteraction p s targetId newStatus w r =
     (let s1 = s\<lparr>updating := Some targetId\<rparr>;
          put = PutInteraction (viewerRole p) (userId p) (targetRole p) targetId newStatus
      in case w of
           WriteRejected \<Rightarrow> (s1\<lparr>updating := None\<rparr>, [put])
         | WriteResolved st \<Rightarrow>
             (case fetchHistory p s1 r of (s2, reqs) \<Rightarrow> (s2\<lparr>updating := None\<rparr>, put # reqs)))"

text \<open>
  The action buttons of a row: on the liked tab "Change to pass" and "Remove from list",
  on the passed tab "Change to like" and "Remove from list". Each calls
  \<^verbatim>\<open>updateInteraction(id, n)\<close> with the literal \<open>n\<close> of its \<^verbatim>\<open>onClick\<close>.
\<close>

datatype history_button = ChangeToPass | ChangeToLike | RemoveFromList

fun rowButtons :: "tab \<Rightarrow> history_button list" where
  "rowButtons LikedTab = [ChangeToPass, RemoveFromList]"
| "rowButtons DislikedTab = [ChangeToLike, RemoveFromList]"

fun buttonStatus :: "history_button \<Rightarrow> int" where
  "buttonStatus ChangeToPass = 0"
| "buttonStatus ChangeToLike = 1"
| "buttonStatus RemoveFromList = - 1"

definition clickButton ::
    "props \<Rightarrow> history_state \<Rightarrow> candidate \<Rightarrow> history_button \<Rightarrow> written
      \<Rightarrow> (candidate list option \<times> candidate list option) fetched
      \<Rightarrow> history_state \<times> request list" where
  "clickButton p s item b w r = updateInteraction p s (itemId p item) (buttonStatus b) w r"

subsection \<open>SearchBar\<close>

text \<open>
  A JavaScript string is a sequence of UTF-16 code units. \<^verbatim>\<open>String.prototype.trim\<close>
  removes the leading and trailing code units that are white space or line terminators
  of ECMAScript: tab, line feed, vertical tab, form feed, carriage return, space,
  no-break space, the space separators of Unicode, the line and paragraph separators
  and the byte order mark.
\<close>

type_synonym js_string = "nat list"

definition isWhiteSpace :: "nat \<Rightarrow> bool" where
  "isWhiteSpace c =
     (c \<in> {0x09, 0x0A, 0x0B, 0x0C, 0x0D, 0x20, 0xA0, 0x1680, 0x2028, 0x2029, 0x202F, 0x205F,
            0x3000, 0xFEFF}
      \<or> (0x2000 \<le> c \<and> c \<le> 0x200A))"

definition trim :: "js_string \<Rightarrow> js_string" where
  "trim q = rev (dropWhile isWhiteSpace (rev (dropWhile isWhiteSpace q)))"

text \<open>
  \<^verbatim>\<open>encodeURIComponent\<close> throws a URIError on a lone surrogate: a high surrogate not
  followed by a low one, or a low surrogate on its own.
\<close>

fun wellFormed :: "js_string \<Rightarrow> bool" where
  "wellFormed [] = True"
| "wellFormed [c] = (c < 0xD800 \<or> 0xDFFF < c)"
| "wellFormed (c # d # cs) =
     (if 0xD800 \<le> c \<and> c \<le> 0xDBFF then 0xDC00 \<le> d \<and> d \<le> 0xDFFF \<and> wellFormed cs
      else if 0xDC00 \<le> c \<and> c \<le> 0xDFFF then False
      else wellFormed (d # cs))"

record search_state =
  query :: js_string
  results :: "candidate list"
  searchLoading :: bool
  showResults :: bool

text \<open>
  \<^verbatim>\<open>performSearch(searchQuery)\<close> up to \<^verbatim>\<open>await fetch(endpoint)\<close>. The flag is
  \<^verbatim>\<open>isSearchingCompanies\<close>. When building the URL throws, the \<^verbatim>\<open>catch\<close> and
  \<^verbatim>\<open>finally\<close> blocks run at once and nothing is sent.
\<close>

definition performSearch_begin :: "bool \<Rightarrow> search_state \<Rightarrow> js_string \<Rightarrow> search_state \<times> request option" where
  "performSearch_begin isSearchingCompanies s searchQuery =
     (if wellFormed searchQuery
      then (s\<lparr>searchLoading := True\<rparr>, Some (GetSearch isSearchingCompanies searchQuery 10))
      else (s\<lparr>results := [], searchLoading := False\<rparr>, None))"

definition performSearch_settle :: "search_state \<Rightarrow> candidate list option fetched \<Rightarrow> search_state" where
  "performSearch_settle s r =
     (case r of
        FetchRejected \<Rightarrow> s\<lparr>results := [], searchLoading := False\<rparr>
      | FetchResolved st JsonThrows \<Rightarrow> s\<lparr>results := [], searchLoading := False\<rparr>
      | FetchResolved st (JsonValue res) \<Rightarrow>
          s\<lparr>results := orEmpty res, showResults := True, searchLoading := False\<rparr>)"

text \<open>
  The callback of the 300 ms debounce timer that the effect on \<open>query\<close> sets: an empty
  string is the only falsy string.
\<close>

definition debouncedSearch :: "bool \<Rightarrow> search_state \<Rightarrow> search_state \<times> request option" where
  "debouncedSearch isSearchingCompanies s =
     (if trim (query s) \<noteq> [] then performSearch_begin isSearchingCompanies s (query s)
      else (s\<lparr>results := []\<rparr>, None))"


subsection \<open>Example values\<close>

text \<open>A batch of three companies shown to investor 7, and states built from it.\<close>

definition candA :: candidate where
  "candA = \<lparr>company_id = Some 1, user_id = None, name = ''A''\<rparr>"

definition candB :: candidate where
  "candB = \<lparr>company_id = Some 2, user_id = None, name = ''B''\<rparr>"

definition candC :: candidate where
  "candC = \<lparr>company_id = Some 3, user_id = None, name = ''C''\<rparr>"

definition investor7 :: props where
  "investor7 = \<lparr>isInvestor = True, userId = 7\<rparr>"

definition readyABC :: swipe_state where
  "readyABC = \<lparr>recommendations = [candA, candB, candC], currentIndex = 0, loading = False,
     swiping = None, noMore = False, error = None\<rparr>"

definition historyAB :: history_state where
  "historyAB = \<lparr>liked = [candA], disliked = [candB], historyLoading = False,
     activeList = LikedTab, updating = None\<rparr>"

definition blankSearch :: search_state where
  "blankSearch = \<lparr>query = [0x20, 0x09, 0xA0], results = [candA], searchLoading = False,
     showResults = True\<rparr>"

text \<open>
  A session that has fetched the batch \<open>xs\<close> and then made the decisions \<open>likes\<close> one
  after the other, each write answered with status 200.
\<close>

definition acknowledgedSession ::
    "props \<Rightarrow> swipe_state \<Rightarrow> candidate list \<Rightarrow> bool list \<Rightarrow> swipe_state" where
  "acknowledgedSession p s0 xs likes =
     decisions p (fetchRecommendations p s0 (FetchResolved 200 (JsonValue (Some xs))))
       (map (\<lambda>l. (l, WriteResolved 200)) likes)"

section \<open>Properties of the swipe session\<close>

subsection \<open>One call of handleSwipe\<close>

lemma handleSwipe_begin_guarded:
  "swiping s \<noteq> None \<or> length (recommendations s) \<le> currentIndex s \<Longrightarrow>
     handleSwipe_begin p s like = (s, None)"
  by (simp add: handleSwipe_begin_def)

lemma handleSwipe_begin_accepted:
  "swiping s = None \<Longrightarrow> currentIndex s < length (recommendations s) \<Longrightarrow>
     \<exists>c. handleSwipe_begin p s like =
            (s\<lparr>swiping := Some (if like then SwipeRight else SwipeLeft)\<rparr>, Some c)
          \<and> call_index c = currentIndex s \<and> call_length c = length (recommendations s)"
  by (simp add: handleSwipe_begin_def Let_def)

lemma handleSwipe_resolved:
  "swiping s = None \<Longrightarrow> currentIndex s < length (recommendations s) \<Longrightarrow>
     fst (handleSwipe p s like (WriteResolved st)) =
       (if length (recommendations s) \<le> currentIndex s + 1 then s\<lparr>noMore := True\<rparr>
        else s\<lparr>currentIndex := currentIndex s + 1\<rparr>)"
  by (simp add: handleSwipe_def handleSwipe_begin_def handleSwipe_settle_def Let_def)

lemma handleSwipe_rejected:
  "swiping s = None \<Longrightarrow> fst (handleSwipe p s like WriteRejected) = s"
  by (simp add: handleSwipe_def handleSwipe_begin_def handleSwipe_settle_def Let_def)

lemma handleSwipe_settle_le:
  "currentIndex (handleSwipe_settle s c w) \<le> currentIndex s + 1"
  by (cases w) (simp_all add: handleSwipe_settle_def)

subsection \<open>Failed fetches\<close>

text \<open>
  C1. The spec asks that a recommendation fetch ending in a transport failure or in a
  non-success status puts the session in the error state with its retry button, never
  in the exhausted state. The component does otherwise. A response whose JSON body has
  no \<^verbatim>\<open>recommendations\<close> field sets \<open>noMore\<close> and no error whatever its status \<open>st\<close>
  is, 500 included, and the "All caught up!" panel is shown. A rejected fetch or a body
  that does not parse does set the error, but on the first load the panel for
  \<^verbatim>\<open>noMore || !current\<close> is returned before the error panel is reached, so
  "All caught up!" is shown there too.
\<close>

theorem fetchRecommendations_failure_shows_caught_up:
  "noMore (fetchRecommendations p s (FetchResolved st (JsonValue None)))
   \<and> error (fetchRecommendations p s (FetchResolved st (JsonValue None))) = None
   \<and> swipeView (fetchRecommendations p s (FetchResolved st (JsonValue None))) = AllCaughtUp
   \<and> error (fetchRecommendations p initialSwipe FetchRejected)
       = Some ''Failed to load recommendations''
   \<and> swipeView (fetchRecommendations p initialSwipe FetchRejected) = AllCaughtUp
   \<and> swipeView (fetchRecommendations p initialSwipe (FetchResolved st JsonThrows)) = AllCaughtUp"
  by (simp add: fetchRecommendations_def fetchRecommendations_begin_def
      fetchRecommendations_settle_def swipeView_def initialSwipe_def)

theorem fetchRecommendations_failure_shows_caught_up_witness:
  "\<not> responseOk 500
   \<and> swipeView (fetchRecommendations investor7 initialSwipe (FetchResolved 500 (JsonValue None)))
       = AllCaughtUp
   \<and> error (fetchRecommendations investor7 initialSwipe (FetchResolved 500 (JsonValue None)))
       = None
   \<and> swipeView (fetchRecommendations investor7 initialSwipe FetchRejected) = AllCaughtUp"
  using fetchRecommendations_failure_shows_caught_up [of investor7 initialSwipe 500]
  by (simp add: responseOk_def)

subsection \<open>Failed swipe writes\<close>

lemma handleInteraction_checks_status:
  "\<not> responseOk st \<Longrightarrow>
     interactionDone (handleInteraction a s like (WriteResolved st)) = interactionDone s"
  by (simp add: handleInteraction_def)

text \<open>
  C2. The spec asks that the cursor advances only once the swipe write is acknowledged
  with a 2xx status, and stays where it is on a transport error or any other status.
  The component keeps the cursor on a rejected fetch only: \<^verbatim>\<open>handleSwipe\<close> awaits the
  fetch and never reads the response, so from an idle state with a further card in the
  batch \<open>currentIndex\<close> goes up by one for every status \<open>st\<close>, 500 included.
\<close>

theorem handleSwipe_advances_on_any_status:
  "swiping s = None \<Longrightarrow> currentIndex s + 1 < length (recommendations s) \<Longrightarrow>
     currentIndex (fst (handleSwipe p s like (WriteResolved st))) = currentIndex s + 1
     \<and> currentIndex (fst (handleSwipe p s like WriteRejected)) = currentIndex s"
  by (simp add: handleSwipe_resolved handleSwipe_rejected)

theorem handleSwipe_advances_on_any_status_witness:
  "\<not> responseOk 500 \<and> swiping readyABC = None
   \<and> currentIndex readyABC + 1 < length (recommendations readyABC)
   \<and> currentIndex readyABC = 0
   \<and> currentIndex (fst (handleSwipe investor7 readyABC True (WriteResolved 500))) = 1"
  using handleSwipe_advances_on_any_status [of readyABC investor7 True 500]
  by (simp add: responseOk_def readyABC_def)

subsection \<open>Empty result is exhaustion\<close>

text \<open>
  C5. A recommendation fetch that completes successfully with a missing or an empty
  \<^verbatim>\<open>recommendations\<close> list sets \<open>noMore\<close> and leaves no error: the component shows
  the "All caught up!" panel, not the error panel. This holds from every state \<open>s\<close> the
  fetch is started in, and the panel is the same for every state \<open>s'\<close> the response
  finds the component in.
\<close>

theorem fetchRecommendations_empty_is_exhausted:
  "responseOk st \<Longrightarrow>
     swipeView (fetchRecommendations p s (FetchResolved st (JsonValue None))) = AllCaughtUp
   \<and> swipeView (fetchRecommendations p s (FetchResolved st (JsonValue (Some [])))) = AllCaughtUp
   \<and> noMore (fetchRecommendations p s (FetchResolved st (JsonValue None)))
   \<and> noMore (fetchRecommendations p s (FetchResolved st (JsonValue (Some []))))
   \<and> error (fetchRecommendations p s (FetchResolved st (JsonValue None))) = None
   \<and> error (fetchRecommendations p s (FetchResolved st (JsonValue (Some [])))) = None
   \<and> swipeView (fetchRecommendations_settle s' (FetchResolved st (JsonValue None))) = AllCaughtUp
   \<and> swipeView (fetchRecommendations_settle s' (FetchResolved st (JsonValue (Some []))))
       = AllCaughtUp"
  by (simp add: fetchRecommendations_def fetchRecommendations_begin_def
      fetchRecommendations_settle_def swipeView_def)

theorem fetchRecommendations_empty_is_exhausted_witness:
  "responseOk 200
   \<and> swipeView (fetchRecommendations investor7 initialSwipe
        (FetchResolved 200 (JsonValue (Some [])))) = AllCaughtUp
   \<and> swipeView (fetchRecommendations investor7 readyABC
        (FetchResolved 200 (JsonValue None))) = AllCaughtUp
   \<and> error (fetchRecommendations investor7 readyABC (FetchResolved 200 (JsonValue None))) = None"
proof -
  have ok: "responseOk 200" by (simp add: responseOk_def)
  from fetchRecommendations_empty_is_exhausted [OF ok, of investor7 initialSwipe initialSwipe]
    fetchRecommendations_empty_is_exhausted [OF ok, of investor7 readyABC readyABC]
  show ?thesis using ok by simp
qed

subsection \<open>Runs of acknowledged decisions\<close>

lemma decisions_advance:
  "swiping s = None \<Longrightarrow> currentIndex s + length likes < length (recommendations s) \<Longrightarrow>
     decisions p s (map (\<lambda>l. (l, WriteResolved st)) likes)
       = s\<lparr>currentIndex := currentIndex s + length likes\<rparr>"
proof (induction likes arbitrary: s)
  case Nil
  then show ?case by simp
next
  case (Cons l likes)
  let ?s1 = "s\<lparr>currentIndex := currentIndex s + 1\<rparr>"
  from Cons.prems have step: "fst (handleSwipe p s l (WriteResolved st)) = ?s1"
    by (simp add: handleSwipe_resolved)
  have "decisions p ?s1 (map (\<lambda>l. (l, WriteResolved st)) likes)
          = ?s1\<lparr>currentIndex := currentIndex ?s1 + length likes\<rparr>"
    using Cons.prems by (intro Cons.IH) simp_all
  with step show ?case by simp
qed

lemma decisions_append:
  "decisions p s (ds @ es) = decisions p (decisions p s ds) es"
proof (induction ds arbitrary: s)
  case Nil
  show ?case by simp
next
  case (Cons d ds)
  obtain l w where d: "d = (l, w)" by (cases d)
  show ?case unfolding d by (simp add: Cons.IH)
qed

lemma decisions_all_acknowledged:
  assumes idle: "swiping s = None" and fresh: "currentIndex s = 0"
    and n: "length likes \<le> length (recommendations s)" and nonempty: "recommendations s \<noteq> []"
  shows "decisions p s (map (\<lambda>l. (l, WriteResolved st)) likes) =
           (if length likes < length (recommendations s) then s\<lparr>currentIndex := length likes\<rparr>
            else s\<lparr>currentIndex := length (recommendations s) - 1, noMore := True\<rparr>)"
proof (cases "length likes < length (recommendations s)")
  case True
  then show ?thesis using decisions_advance [of s likes p st] idle fresh by simp
next
  case False
  with n have len: "length likes = length (recommendations s)" by simp
  with nonempty have "likes \<noteq> []" by auto
  then obtain init l where likes: "likes = init @ [l]"
    by (metis rev_exhaust)
  let ?m = "s\<lparr>currentIndex := length init\<rparr>"
  have init: "length init + 1 = length (recommendations s)" using len likes by simp
  have "decisions p s (map (\<lambda>l. (l, WriteResolved st)) init) = ?m"
    using decisions_advance [of s init p st] idle fresh init by simp
  moreover have "fst (handleSwipe p ?m l (WriteResolved st)) = ?m\<lparr>noMore := True\<rparr>"
    using idle init by (simp add: handleSwipe_resolved)
  ultimately have "decisions p s (map (\<lambda>l. (l, WriteResolved st)) likes) = ?m\<lparr>noMore := True\<rparr>"
    unfolding likes by (simp add: decisions_append)
  moreover have "length init = length (recommendations s) - 1" using init by simp
  ultimately show ?thesis using False by simp
qed

lemma fetched_batch:
  "xs \<noteq> [] \<Longrightarrow>
     fetchRecommendations p s0 (FetchResolved st (JsonValue (Some xs)))
       = s0\<lparr>recommendations := xs, currentIndex := 0, loading := False, noMore := False,
            error := None\<rparr>"
  by (simp add: fetchRecommendations_def fetchRecommendations_begin_def
      fetchRecommendations_settle_def)

text \<open>
  C3, as the spec states it, fails on the last card. After the third acknowledged
  decision on a batch of three the cursor \<open>currentIndex\<close> is 2, not 3: the timer callback
  sets \<open>noMore\<close> instead of moving the index past the end of the batch.
\<close>

theorem cursor_stops_below_batch_size:
  "currentIndex (acknowledgedSession investor7 initialSwipe [candA, candB, candC]
      [True, False, True]) \<noteq> length [True, False, True]"
  by (simp add: acknowledgedSession_def fetchRecommendations_def fetchRecommendations_begin_def
      fetchRecommendations_settle_def initialSwipe_def handleSwipe_def handleSwipe_begin_def
      handleSwipe_settle_def Let_def)

text \<open>
  C3, amended. Take a session with no swipe in flight that fetches a batch \<open>xs\<close> of size
  M > 0 and then makes N \<le> M decisions, each acknowledged. While N < M the cursor
  \<open>currentIndex\<close> equals N, \<open>noMore\<close> is unset and the card is shown. The M-th
  acknowledgment leaves the cursor at M - 1 and sets \<open>noMore\<close>, which is the exhausted
  state ("All caught up!"). So the number of acknowledged decisions is \<open>currentIndex\<close>,
  plus one once \<open>noMore\<close> is set, and the cursor stays below M. The batch is unchanged.
\<close>

theorem cursor_counts_acknowledged_decisions:
  assumes "swiping s0 = None" and "xs \<noteq> []" and "length likes \<le> length xs"
  shows "recommendations (acknowledgedSession p s0 xs likes) = xs
       \<and> currentIndex (acknowledgedSession p s0 xs likes)
           = (if length likes < length xs then length likes else length xs - 1)
       \<and> noMore (acknowledgedSession p s0 xs likes) = (length likes = length xs)
       \<and> currentIndex (acknowledgedSession p s0 xs likes)
           + (if noMore (acknowledgedSession p s0 xs likes) then 1 else 0) = length likes
       \<and> swipeView (acknowledgedSession p s0 xs likes)
           = (if length likes = length xs then AllCaughtUp else Card)
       \<and> currentIndex (acknowledgedSession p s0 xs likes) < length xs"
proof -
  let ?s = "fetchRecommendations p s0 (FetchResolved 200 (JsonValue (Some xs)))"
  have s: "?s = s0\<lparr>recommendations := xs, currentIndex := 0, loading := False,
              noMore := False, error := None\<rparr>"
    using assms(2) by (rule fetched_batch)
  have "decisions p ?s (map (\<lambda>l. (l, WriteResolved 200)) likes) =
           (if length likes < length (recommendations ?s) then ?s\<lparr>currentIndex := length likes\<rparr>
            else ?s\<lparr>currentIndex := length (recommendations ?s) - 1, noMore := True\<rparr>)"
    using assms by (intro decisions_all_acknowledged) (simp_all add: s)
  then have run: "acknowledgedSession p s0 xs likes =
           (if length likes < length xs then ?s\<lparr>currentIndex := length likes\<rparr>
            else ?s\<lparr>currentIndex := length xs - 1, noMore := True\<rparr>)"
    by (simp add: acknowledgedSession_def s)
  from assms(2) have pos: "0 < length xs" by simp
  show ?thesis
  proof (cases "length likes < length xs")
    case True
    with run pos show ?thesis by (simp add: s swipeView_def)
  next
    case False
    with assms(3) have "length likes = length xs" by simp
    with run pos show ?thesis by (simp add: s swipeView_def)
  qed
qed

theorem cursor_counts_acknowledged_decisions_witness:
  "swiping initialSwipe = None \<and> [candA, candB, candC] \<noteq> []
   \<and> length [True, False] \<le> length [candA, candB, candC]
   \<and> currentIndex (acknowledgedSession investor7 initialSwipe [candA, candB, candC]
        [True, False]) = 2
   \<and> swipeView (acknowledgedSession investor7 initialSwipe [candA, candB, candC]
        [True, False]) = Card
   \<and> currentIndex (acknowledgedSession investor7 initialSwipe [candA, candB, candC]
        [True, False, True]) = 2
   \<and> noMore (acknowledgedSession investor7 initialSwipe [candA, candB, candC]
        [True, False, True])
   \<and> swipeView (acknowledgedSession investor7 initialSwipe [candA, candB, candC]
        [True, False, True]) = AllCaughtUp"
  using cursor_counts_acknowledged_decisions
      [of initialSwipe "[candA, candB, candC]" "[True, False]" investor7]
    cursor_counts_acknowledged_decisions
      [of initialSwipe "[candA, candB, candC]" "[True, False, True]" investor7]
  by (simp add: initialSwipe_def)

subsection \<open>Presses while a swipe is in flight\<close>

lemma burst_pending:
  "swiping s \<noteq> None \<or> length (recommendations s) \<le> currentIndex s \<Longrightarrow> burst p s ls = (s, [])"
  by (induction ls) (simp_all add: handleSwipe_begin_guarded)

lemma burst_cases:
  "burst p s ls = (s, [])
   \<or> (\<exists>l c. swiping s = None \<and> currentIndex s < length (recommendations s)
         \<and> handleSwipe_begin p s l
             = (s\<lparr>swiping := Some (if l then SwipeRight else SwipeLeft)\<rparr>, Some c)
         \<and> call_index c = currentIndex s \<and> call_length c = length (recommendations s)
         \<and> burst p s ls = (s\<lparr>swiping := Some (if l then SwipeRight else SwipeLeft)\<rparr>, [c]))"
proof (cases ls)
  case Nil
  then show ?thesis by simp
next
  case (Cons l rest)
  show ?thesis
  proof (cases "swiping s \<noteq> None \<or> length (recommendations s) \<le> currentIndex s")
    case True
    then show ?thesis by (simp add: burst_pending)
  next
    case False
    then have idle: "swiping s = None" and inrange: "currentIndex s < length (recommendations s)"
      by auto
    let ?s1 = "s\<lparr>swiping := Some (if l then SwipeRight else SwipeLeft)\<rparr>"
    from handleSwipe_begin_accepted [OF idle inrange, of p l]
    obtain c where c: "handleSwipe_begin p s l = (?s1, Some c)"
      "call_index c = currentIndex s" "call_length c = length (recommendations s)"
      by blast
    have "burst p ?s1 rest = (?s1, [])" by (rule burst_pending) simp
    with c have "burst p s ls = (?s1, [c])" by (simp add: Cons)
    with c idle inrange show ?thesis by blast
  qed
qed

text \<open>
  C4. In every state, a decision made while a swipe is in flight (\<open>swiping\<close> is set) or
  with the cursor at or past the end of the batch is a no-op: \<^verbatim>\<open>handleSwipe\<close> returns
  the state unchanged and sends nothing, and so does any further run of presses. Hence a
  burst of presses with no response in between sends at most one swipe write and does
  not move the cursor, and once that one write settles, whatever its outcome \<open>w\<close>, the
  cursor is at most one above where the burst started.
\<close>

theorem handleSwipe_pending_or_exhausted_is_noop:
  "(swiping s \<noteq> None \<or> length (recommendations s) \<le> currentIndex s \<longrightarrow>
      handleSwipe_begin p s like = (s, None) \<and> handleSwipe p s like w = (s, [])
      \<and> burst p s presses = (s, []))
   \<and> length (snd (burst p s presses)) \<le> 1
   \<and> currentIndex (fst (burst p s presses)) = currentIndex s
   \<and> (\<forall>c \<in> set (snd (burst p s presses)).
        currentIndex (handleSwipe_settle (fst (burst p s presses)) c w) \<le> currentIndex s + 1)"
proof -
  have guard: "swiping s \<noteq> None \<or> length (recommendations s) \<le> currentIndex s \<longrightarrow>
      handleSwipe_begin p s like = (s, None) \<and> handleSwipe p s like w = (s, [])
      \<and> burst p s presses = (s, [])"
    by (simp add: handleSwipe_def handleSwipe_begin_guarded burst_pending)
  from burst_cases [of p s presses]
  have once: "length (snd (burst p s presses)) \<le> 1"
    and same: "currentIndex (fst (burst p s presses)) = currentIndex s"
    by auto
  have "currentIndex (handleSwipe_settle (fst (burst p s presses)) c w) \<le> currentIndex s + 1" for c
    using handleSwipe_settle_le [of "fst (burst p s presses)" c w] same by simp
  with guard once same show ?thesis by blast
qed

theorem handleSwipe_pending_or_exhausted_is_noop_witness:
  "swiping (readyABC\<lparr>swiping := Some SwipeRight\<rparr>) \<noteq> None
   \<and> handleSwipe_begin investor7 (readyABC\<lparr>swiping := Some SwipeRight\<rparr>) False
        = (readyABC\<lparr>swiping := Some SwipeRight\<rparr>, None)
   \<and> snd (burst investor7 readyABC [True, True, False])
        = [\<lparr>call_request = PostSwipe Investor 7 Company (Some 1) True,
             call_index = 0, call_length = 3\<rparr>]
   \<and> currentIndex (handleSwipe_settle (fst (burst investor7 readyABC [True, True, False]))
        \<lparr>call_request = PostSwipe Investor 7 Company (Some 1) True,
          call_index = 0, call_length = 3\<rparr> (WriteResolved 200)) \<le> currentIndex readyABC + 1"
proof -
  let ?pending = "readyABC\<lparr>swiping := Some SwipeRight\<rparr>"
  let ?c = "\<lparr>call_request = PostSwipe Investor 7 Company (Some 1) True,
             call_index = 0, call_length = 3\<rparr>"
  have guard: "swiping ?pending \<noteq> None" by simp
  with handleSwipe_pending_or_exhausted_is_noop
      [of ?pending investor7 False "WriteResolved 200" "[]"]
  have noop: "handleSwipe_begin investor7 ?pending False = (?pending, None)" by blast
  have sent: "snd (burst investor7 readyABC [True, True, False]) = [?c]"
    by (simp add: readyABC_def investor7_def candA_def viewerRole_def targetRole_def
        handleSwipe_begin_def Let_def)
  with handleSwipe_pending_or_exhausted_is_noop
      [of readyABC investor7 False "WriteResolved 200" "[True, True, False]"]
  have "currentIndex (handleSwipe_settle (fst (burst investor7 readyABC [True, True, False]))
          ?c (WriteResolved 200)) \<le> currentIndex readyABC + 1"
    by simp
  with guard noop sent show ?thesis by blast
qed

section \<open>Properties of the interaction history\<close>

text \<open>
  C6. After a status change that the server acknowledges, \<^verbatim>\<open>updateInteraction\<close> sends
  the PUT and then a GET for the viewer's whole history, and nothing else. The lists
  shown afterwards are the lists of that response (empty where the response has none):
  they do not depend on the lists shown before, so nothing is patched locally.
\<close>

theorem updateInteraction_refetches_lists:
  "responseOk st \<Longrightarrow>
     snd (updateInteraction p s targetId newStatus (WriteResolved st) r)
       = [PutInteraction (viewerRole p) (userId p) (targetRole p) targetId newStatus,
          GetInteractions (viewerRole p) (userId p)]
     \<and> fst (updateInteraction p s targetId newStatus (WriteResolved st)
              (FetchResolved st' (JsonValue (l, d))))
       = s\<lparr>liked := orEmpty l, disliked := orEmpty d, historyLoading := False, updating := None\<rparr>
     \<and> liked (fst (updateInteraction p s targetId newStatus (WriteResolved st)
              (FetchResolved st' (JsonValue (Some ls, Some ds))))) = ls
     \<and> disliked (fst (updateInteraction p s targetId newStatus (WriteResolved st)
              (FetchResolved st' (JsonValue (Some ls, Some ds))))) = ds"
  by (simp add: updateInteraction_def fetchHistory_def fetchHistory_begin_def
      fetchHistory_settle_def Let_def)

theorem updateInteraction_refetches_lists_witness:
  "responseOk 200
   \<and> snd (updateInteraction investor7 historyAB (Some 1) 0 (WriteResolved 200)
        (FetchResolved 200 (JsonValue (Some [], Some [candA, candB]))))
       = [PutInteraction Investor 7 Company (Some 1) 0, GetInteractions Investor 7]
   \<and> liked (fst (updateInteraction investor7 historyAB (Some 1) 0 (WriteResolved 200)
        (FetchResolved 200 (JsonValue (Some [], Some [candA, candB]))))) = []
   \<and> disliked (fst (updateInteraction investor7 historyAB (Some 1) 0 (WriteResolved 200)
        (FetchResolved 200 (JsonValue (Some [], Some [candA, candB]))))) = [candA, candB]"
proof -
  have ok: "responseOk 200" by (simp add: responseOk_def)
  from updateInteraction_refetches_lists
      [OF ok, of investor7 historyAB "Some 1" 0
         "FetchResolved 200 (JsonValue (Some [], Some [candA, candB]))"
         200 "Some []" "Some [candA, candB]" "[]" "[candA, candB]"]
  show ?thesis using ok by (simp add: investor7_def viewerRole_def targetRole_def)
qed

text \<open>
  C7. Every status change the history view sends is a PUT to the interactions endpoint
  whose body carries \<open>new_status\<close> 1 for "Change to like", 0 for "Change to pass" and -1
  for "Remove from list", for an investor acting on a company and for a company acting
  on an investor alike; the liked tab offers the statuses 0 and -1, the passed tab 1
  and -1. \<^verbatim>\<open>updateInteraction\<close> passes the status it is given into the
  body unchanged, and the PUT is the only write among the requests of a click.
\<close>

theorem clickButton_sends_sentinel:
  "map buttonStatus (rowButtons LikedTab) = [0, - 1]
   \<and> map buttonStatus (rowButtons DislikedTab) = [1, - 1]
   \<and> take 1 (snd (clickButton \<lparr>isInvestor = True, userId = u\<rparr> s item ChangeToLike w r))
      = [PutInteraction Investor u Company (company_id item) 1]
   \<and> take 1 (snd (clickButton \<lparr>isInvestor = True, userId = u\<rparr> s item ChangeToPass w r))
      = [PutInteraction Investor u Company (company_id item) 0]
   \<and> take 1 (snd (clickButton \<lparr>isInvestor = True, userId = u\<rparr> s item RemoveFromList w r))
      = [PutInteraction Investor u Company (company_id item) (- 1)]
   \<and> take 1 (snd (clickButton \<lparr>isInvestor = False, userId = u\<rparr> s item ChangeToLike w r))
      = [PutInteraction Company u Investor (user_id item) 1]
   \<and> take 1 (snd (clickButton \<lparr>isInvestor = False, userId = u\<rparr> s item ChangeToPass w r))
      = [PutInteraction Company u Investor (user_id item) 0]
   \<and> take 1 (snd (clickButton \<lparr>isInvestor = False, userId = u\<rparr> s item RemoveFromList w r))
      = [PutInteraction Company u Investor (user_id item) (- 1)]
   \<and> snd (clickButton p s item b w r)
      = PutInteraction (viewerRole p) (userId p) (targetRole p) (itemId p item) (buttonStatus b)
        # (case w of WriteRejected \<Rightarrow> []
           | WriteResolved x \<Rightarrow> [GetInteractions (viewerRole p) (userId p)])
   \<and> snd (updateInteraction p s targetId newStatus w r)
      = PutInteraction (viewerRole p) (userId p) (targetRole p) targetId newStatus
        # (case w of WriteRejected \<Rightarrow> []
           | WriteResolved x \<Rightarrow> [GetInteractions (viewerRole p) (userId p)])"
  by (cases w) (simp_all add: clickButton_def updateInteraction_def fetchHistory_def
      fetchHistory_begin_def viewerRole_def targetRole_def itemId_def Let_def)

theorem clickButton_sends_sentinel_witness:
  "snd (clickButton investor7 historyAB candA RemoveFromList WriteRejected FetchRejected)
     = [PutInteraction Investor 7 Company (Some 1) (- 1)]
   \<and> snd (clickButton investor7 historyAB candA ChangeToPass (WriteResolved 200) FetchRejected)
     = [PutInteraction Investor 7 Company (Some 1) 0, GetInteractions Investor 7]"
  using clickButton_sends_sentinel
      [of 7 historyAB candA WriteRejected FetchRejected investor7 RemoveFromList None 0]
    clickButton_sends_sentinel
      [of 7 historyAB candA "WriteResolved 200" FetchRejected investor7 ChangeToPass None 0]
  by (simp add: investor7_def viewerRole_def targetRole_def itemId_def candA_def)

text \<open>
  C8. The spec asks that after a failed status change the lists are exactly as they
  were before the action. The component keeps them when the PUT is rejected (a transport
  failure). When the server answers the PUT with an error status the response is not
  looked at: the history is fetched again as after a success, and both lists are
  replaced by what that response holds, for every status \<open>st\<close> of the PUT and \<open>st'\<close> of
  the GET. An error body without the two fields empties both lists.
\<close>

theorem updateInteraction_http_error_replaces_lists:
  "liked (fst (updateInteraction p s targetId newStatus WriteRejected r)) = liked s
   \<and> disliked (fst (updateInteraction p s targetId newStatus WriteRejected r)) = disliked s
   \<and> liked (fst (updateInteraction p s targetId newStatus (WriteResolved st)
        (FetchResolved st' (JsonValue (l, d))))) = orEmpty l
   \<and> disliked (fst (updateInteraction p s targetId newStatus (WriteResolved st)
        (FetchResolved st' (JsonValue (l, d))))) = orEmpty d"
  by (simp add: updateInteraction_def fetchHistory_def fetchHistory_begin_def
      fetchHistory_settle_def Let_def)

theorem updateInteraction_http_error_replaces_lists_witness:
  "\<not> responseOk 500 \<and> liked historyAB = [candA] \<and> disliked historyAB = [candB]
   \<and> liked (fst (updateInteraction investor7 historyAB (Some 1) 0 (WriteResolved 500)
        (FetchResolved 500 (JsonValue (None, None))))) = []
   \<and> disliked (fst (updateInteraction investor7 historyAB (Some 1) 0 (WriteResolved 500)
        (FetchResolved 500 (JsonValue (None, None))))) = []"
  using updateInteraction_http_error_replaces_lists
      [of investor7 historyAB "Some 1" 0 FetchRejected 500 500 None None]
  by (simp add: responseOk_def historyAB_def)

text \<open>
  C10. When the history fetch fails, by a rejected request or by a body that does not
  parse, the liked and disliked lists stay as they were: the whole effect of
  \<^verbatim>\<open>fetchHistory\<close> on the state is that the loading flag is cleared. The lists are also
  untouched for every state \<open>s'\<close> the failure finds the component in.
\<close>

theorem fetchHistory_failure_keeps_lists:
  "fst (fetchHistory p s FetchRejected) = s\<lparr>historyLoading := False\<rparr>
   \<and> fst (fetchHistory p s (FetchResolved st JsonThrows)) = s\<lparr>historyLoading := False\<rparr>
   \<and> liked (fetchHistory_settle s' FetchRejected) = liked s'
   \<and> disliked (fetchHistory_settle s' FetchRejected) = disliked s'
   \<and> liked (fetchHistory_settle s' (FetchResolved st JsonThrows)) = liked s'
   \<and> disliked (fetchHistory_settle s' (FetchResolved st JsonThrows)) = disliked s'"
  by (simp add: fetchHistory_def fetchHistory_begin_def fetchHistory_settle_def)

theorem fetchHistory_failure_keeps_lists_witness:
  "liked (fst (fetchHistory investor7 historyAB FetchRejected)) = [candA]
   \<and> disliked (fst (fetchHistory investor7 historyAB (FetchResolved 200 JsonThrows))) = [candB]
   \<and> historyLoading (fst (fetchHistory investor7 historyAB FetchRejected)) = False"
  using fetchHistory_failure_keeps_lists [of investor7 historyAB 200 historyAB]
  by (simp add: historyAB_def)

section \<open>Properties of the search bar\<close>

lemma trim_empty_iff: "trim q = [] \<longleftrightarrow> (\<forall>c \<in> set q. isWhiteSpace c)"
proof
  assume "trim q = []"
  then have "dropWhile isWhiteSpace (rev (dropWhile isWhiteSpace q)) = []"
    by (simp add: trim_def)
  then have all: "\<forall>c \<in> set (dropWhile isWhiteSpace q). isWhiteSpace c"
    by (simp add: dropWhile_eq_Nil_conv)
  have "dropWhile isWhiteSpace q = []"
  proof (rule ccontr)
    assume ne: "dropWhile isWhiteSpace q \<noteq> []"
    then have "\<not> isWhiteSpace (hd (dropWhile isWhiteSpace q))" by (rule hd_dropWhile)
    moreover have "hd (dropWhile isWhiteSpace q) \<in> set (dropWhile isWhiteSpace q)"
      using ne by simp
    ultimately show False using all by blast
  qed
  then show "\<forall>c \<in> set q. isWhiteSpace c" by (simp add: dropWhile_eq_Nil_conv)
next
  assume "\<forall>c \<in> set q. isWhiteSpace c"
  then have blank: "dropWhile isWhiteSpace q = []" by (simp add: dropWhile_eq_Nil_conv)
  show "trim q = []" unfolding trim_def blank by simp
qed

text \<open>
  C9. When the debounce timer fires on a query that is empty or all white space, no
  search request is sent and the results are set to the empty list, the rest of the
  state being untouched. A request is sent only for a query with a character that is
  not white space, and it is the search for that query with limit 10.
\<close>

theorem debouncedSearch_blank_query:
  "((\<forall>c \<in> set (query s). isWhiteSpace c) \<longrightarrow>
       debouncedSearch k s = (s\<lparr>results := []\<rparr>, None))
   \<and> (snd (debouncedSearch k s) \<noteq> None \<longrightarrow> (\<exists>c \<in> set (query s). \<not> isWhiteSpace c))
   \<and> (snd (debouncedSearch k s) \<noteq> None \<longrightarrow>
        snd (debouncedSearch k s) = Some (GetSearch k (query s) 10))"
proof -
  have blank: "(\<forall>c \<in> set (query s). isWhiteSpace c) \<longrightarrow>
       debouncedSearch k s = (s\<lparr>results := []\<rparr>, None)"
    by (simp add: debouncedSearch_def trim_empty_iff)
  have sent: "snd (debouncedSearch k s) \<noteq> None \<longrightarrow> (\<exists>c \<in> set (query s). \<not> isWhiteSpace c)"
    using trim_empty_iff [of "query s"] by (auto simp: debouncedSearch_def split: if_splits)
  have what: "snd (debouncedSearch k s) \<noteq> None \<longrightarrow>
        snd (debouncedSearch k s) = Some (GetSearch k (query s) 10)"
    by (auto simp: debouncedSearch_def performSearch_begin_def split: if_splits)
  from blank sent what show ?thesis by blast
qed

theorem debouncedSearch_blank_query_witness:
  "isWhiteSpace 0x20 \<and> isWhiteSpace 0x09 \<and> isWhiteSpace 0xA0
   \<and> debouncedSearch True blankSearch = (blankSearch\<lparr>results := []\<rparr>, None)
   \<and> snd (debouncedSearch True (blankSearch\<lparr>query := [0x20, 0x41]\<rparr>))
       = Some (GetSearch True [0x20, 0x41] 10)
   \<and> \<not> isWhiteSpace 0x41"
proof -
  have ws: "isWhiteSpace 0x20" "isWhiteSpace 0x09" "isWhiteSpace 0xA0" "\<not> isWhiteSpace 0x41"
    by (simp_all add: isWhiteSpace_def)
  then have "\<forall>c \<in> set (query blankSearch). isWhiteSpace c" by (simp add: blankSearch_def)
  with debouncedSearch_blank_query [of blankSearch True]
  have blank: "debouncedSearch True blankSearch = (blankSearch\<lparr>results := []\<rparr>, None)" by blast
  have "snd (debouncedSearch True (blankSearch\<lparr>query := [0x20, 0x41]\<rparr>)) \<noteq> None"
    using ws by (simp add: debouncedSearch_def performSearch_begin_def trim_def)
  with debouncedSearch_blank_query [of "blankSearch\<lparr>query := [0x20, 0x41]\<rparr>" True]
  have "snd (debouncedSearch True (blankSearch\<lparr>query := [0x20, 0x41]\<rparr>))
       = Some (GetSearch True [0x20, 0x41] 10)" by simp
  with ws blank show ?thesis by blast
qed

end
